theory Spec2Isabelle
  imports Complex_Main "HOL-Library.Sublist"
begin

section \<open>Python values handled by the server\<close>

text \<open>
  The values that flow through \<^verbatim>\<open>server.py\<close> are what \<^verbatim>\<open>response.json()\<close> produces:
  \<^verbatim>\<open>None\<close>, booleans, numbers, strings, lists and dicts. A dict is kept as an
  association list read with \<open>map_of\<close>. \<open>JNull\<close> is Python's \<^verbatim>\<open>None\<close>, so the
  executor's "absent" result and a parsed JSON \<^verbatim>\<open>null\<close> are the same value, as in
  the source. Of a number only its being zero matters to this program; a float is kept
  as a rational.
\<close>

datatype json =
    JNull
  | JBool bool
  | JInt int
  | JFloat rat
  | JStr string
  | JArr "json list"
  | JObj "(string \<times> json) list"

text \<open>Python's truth value of an object (\<^verbatim>\<open>if x\<close>, \<^verbatim>\<open>not x\<close>, \<^verbatim>\<open>x and y\<close>).\<close>

fun truthy :: "json \<Rightarrow> bool" where
  "truthy JNull = False"
| "truthy (JBool b) = b"
| "truthy (JInt n) = (n \<noteq> 0)"
| "truthy (JFloat q) = (q \<noteq> 0)"
| "truthy (JStr s) = (s \<noteq> [])"
| "truthy (JArr xs) = (xs \<noteq> [])"
| "truthy (JObj kvs) = (kvs \<noteq> [])"

text \<open>
  The exceptions of the program. \<open>TransportError\<close> stands for whatever the HTTP client
  raises instead of returning a response (connection failure, timeout, invalid URL),
  with the text \<^verbatim>\<open>str(e)\<close> gives.
\<close>

datatype exn =
    ValueError string
  | HTTPStatusError nat string
  | TransportError string
  | JSONDecodeError string
  | AttributeError string
  | TypeError string
  | KeyError string

fun exn_str :: "exn \<Rightarrow> string" where
  "exn_str (ValueError m) = m"
| "exn_str (HTTPStatusError s m) = m"
| "exn_str (TransportError m) = m"
| "exn_str (JSONDecodeError m) = m"
| "exn_str (AttributeError m) = m"
| "exn_str (TypeError m) = m"
| "exn_str (KeyError m) = m"

text \<open>\<^verbatim>\<open>x.get(key)\<close>: only a dict has the method; a missing key gives \<^verbatim>\<open>None\<close>.\<close>

fun py_get :: "json \<Rightarrow> string \<Rightarrow> exn + json" where
  "py_get (JObj kvs) key = Inr (case map_of kvs key of None \<Rightarrow> JNull | Some v \<Rightarrow> v)"
| "py_get v key = Inl (AttributeError ''object has no attribute get'')"

text \<open>\<^verbatim>\<open>key in x\<close> for a string key: dict membership, substring of a string, element of a list.\<close>

fun py_in :: "string \<Rightarrow> json \<Rightarrow> exn + bool" where
  "py_in key (JObj kvs) = Inr (map_of kvs key \<noteq> None)"
| "py_in key (JStr s) = Inr (sublist key s)"
| "py_in key (JArr xs) = Inr (JStr key \<in> set xs)"
| "py_in key v = Inl (TypeError ''argument is not iterable'')"

text \<open>\<^verbatim>\<open>x[key]\<close> for a string key.\<close>

fun py_getitem :: "json \<Rightarrow> string \<Rightarrow> exn + json" where
  "py_getitem (JObj kvs) key =
     (case map_of kvs key of None \<Rightarrow> Inl (KeyError key) | Some v \<Rightarrow> Inr v)"
| "py_getitem v key = Inl (TypeError ''indices must be integers or object is not subscriptable'')"

text \<open>
  An f-string prints a \<^verbatim>\<open>str\<close> as itself. How Python prints the other values (the
  \<^verbatim>\<open>repr\<close> of floats, of nested strings) is the interpreter's, and is taken as the
  parameter \<open>fmt\<close>.
\<close>

definition py_str :: "(json \<Rightarrow> string) \<Rightarrow> json \<Rightarrow> string" where
  "py_str fmt v = (case v of JStr s \<Rightarrow> s | _ \<Rightarrow> fmt v)"

text \<open>Decimal printing of Python's unbounded integers.\<close>

function show_nat :: "nat \<Rightarrow> string" where
  "show_nat n =
     (if n < 10 then [''0123456789'' ! n]
      else show_nat (n div 10) @ [''0123456789'' ! (n mod 10)])"
  by pat_completeness auto
termination
  by (relation "measure (\<lambda>n. n)") auto

definition show_int :: "int \<Rightarrow> string" where
  "show_int i = (if i < 0 then ''-'' @ show_nat (nat (- i)) else show_nat (nat i))"

text \<open>\<^verbatim>\<open>str.upper()\<close> on the ASCII letters; every other character is left as it is.\<close>

definition upper_char :: "char \<Rightarrow> char" where
  "upper_char c =
     (case map_of (zip ''abcdefghijklmnopqrstuvwxyz'' ''ABCDEFGHIJKLMNOPQRSTUVWXYZ'') c of
        None \<Rightarrow> c
      | Some d \<Rightarrow> d)"

definition upper :: "string \<Rightarrow> string" where
  "upper s = map upper_char s"

section \<open>The remote API and the effects of the program\<close>

datatype http_verb = GET | PATCH

record request =
  verb :: http_verb
  url :: string
  headers :: "(string \<times> string) list"
  json_payload :: "json option"
  timeout_seconds :: nat

text \<open>
  What the code reads of an \<^verbatim>\<open>httpx.Response\<close>: the status code, the raw body, and
  the result of \<^verbatim>\<open>.json()\<close>, which is the parsed body or a decoding error.
\<close>

record response =
  status_code :: nat
  body_text :: string
  json_result :: "string + json"

datatype http_result = Fault string | Reply response

text \<open>
  The remote side is any function from the number of network calls made before and the
  request sent to what the client gets back.
\<close>

type_synonym remote = "nat \<Rightarrow> request \<Rightarrow> http_result"

text \<open>
  The effects: the requests sent over the network in order, the delays slept in order,
  and the lines printed. A call of the client appends its request whether the client
  then returns a response or raises. \<^verbatim>\<open>print\<close> and \<^verbatim>\<open>asyncio.sleep\<close> are taken to
  succeed, and the coroutine is not cancelled while it waits.
\<close>

record world =
  requests :: "request list"
  slept :: "int list"
  printed :: "string list"

definition client_call :: "remote \<Rightarrow> request \<Rightarrow> world \<Rightarrow> http_result \<times> world" where
  "client_call R rq w =
     (R (length (requests w)) rq, w\<lparr>requests := requests w @ [rq]\<rparr>)"

definition py_print :: "string \<Rightarrow> world \<Rightarrow> world" where
  "py_print line w = w\<lparr>printed := printed w @ [line]\<rparr>"

definition sleep :: "int \<Rightarrow> world \<Rightarrow> world" where
  "sleep d w = w\<lparr>slept := slept w @ [d]\<rparr>"

section \<open>The Request Executor: \<^verbatim>\<open>make_roblox_request\<close>\<close>

definition ROBLOX_API_BASE :: string where
  "ROBLOX_API_BASE = ''https://apis.roblox.com/cloud/v2''"

text \<open>\<^verbatim>\<open>response.raise_for_status()\<close> raises unless the status is 2xx.\<close>

definition raise_for_status :: "response \<Rightarrow> exn + unit" where
  "raise_for_status r =
     (if 200 \<le> status_code r \<and> status_code r \<le> 299 then Inr ()
      else Inl (HTTPStatusError (status_code r) (body_text r)))"

text \<open>The headers of lines 33 to 36, and the two requests of lines 40 and 42.\<close>

definition auth_headers :: "string \<Rightarrow> (string \<times> string) list" where
  "auth_headers api_key = [(''x-api-key'', api_key), (''Content-Type'', ''application/json'')]"

definition get_request :: "(string \<times> string) list \<Rightarrow> string \<Rightarrow> request" where
  "get_request hdrs u =
     \<lparr>verb = GET, url = u, headers = hdrs, json_payload = None, timeout_seconds = 30\<rparr>"

definition patch_request :: "(string \<times> string) list \<Rightarrow> string \<Rightarrow> json \<Rightarrow> request" where
  "patch_request hdrs u data =
     \<lparr>verb = PATCH, url = u, headers = hdrs, json_payload = Some data, timeout_seconds = 30\<rparr>"

text \<open>
  Lines 48 to 50, after the client call has returned or raised:
  \<^verbatim>\<open>response.raise_for_status(); return response.json()\<close>.
\<close>

definition read_response :: "http_result \<Rightarrow> exn + json" where
  "read_response h =
     (case h of
        Fault m \<Rightarrow> Inl (TransportError m)
      | Reply r \<Rightarrow>
          (case raise_for_status r of
             Inl e \<Rightarrow> Inl e
           | Inr _ \<Rightarrow>
               (case json_result r of
                  Inl m \<Rightarrow> Inl (JSONDecodeError m)
                | Inr v \<Rightarrow> Inr v)))"

text \<open>The body of the \<^verbatim>\<open>try\<close>, lines 39 to 50.\<close>

definition try_body ::
  "remote \<Rightarrow> (string \<times> string) list \<Rightarrow> string \<Rightarrow> string \<Rightarrow> json \<Rightarrow> world
    \<Rightarrow> (exn + json) \<times> world" where
  "try_body R hdrs method u data w =
     (if upper method = ''GET'' then
        (case client_call R (get_request hdrs u) w of
           (h, w') \<Rightarrow> (read_response h, w'))
      else if upper method = ''PATCH'' then
        (case client_call R (patch_request hdrs u data) w of
           (h, w') \<Rightarrow> (read_response h, w'))
      else (Inl (ValueError (''Unsupported HTTP method: '' @ method)), w))"

text \<open>
  The two \<^verbatim>\<open>except\<close> clauses, lines 51 to 57: each prints a line and returns
  \<^verbatim>\<open>None\<close>. The second one catches every \<^verbatim>\<open>Exception\<close>, the \<^verbatim>\<open>ValueError\<close> of line 46
  included.
\<close>

definition except_clauses :: "(exn + json) \<times> world \<Rightarrow> (exn + json) \<times> world" where
  "except_clauses rw =
     (case rw of
        (Inr v, w) \<Rightarrow> (Inr v, w)
      | (Inl (HTTPStatusError s t), w) \<Rightarrow>
          (Inr JNull, py_print (''Roblox API Error: '' @ show_nat s @ '' - '' @ t) w)
      | (Inl e, w) \<Rightarrow>
          (Inr JNull, py_print (''Error making Roblox API request: '' @ exn_str e) w))"

definition make_roblox_request ::
  "remote \<Rightarrow> string \<Rightarrow> string \<Rightarrow> string \<Rightarrow> json \<Rightarrow> bool \<Rightarrow> world
    \<Rightarrow> (exn + json) \<times> world" where
  "make_roblox_request R api_key method u data is_polling w =
     (let hdrs = auth_headers api_key
      in except_clauses (try_body R hdrs method u data w))"

section \<open>The Operation Poller: \<^verbatim>\<open>poll_for_results\<close>\<close>

text \<open>
  The test of line 66, \<^verbatim>\<open>response_data and response_data.get("done")\<close>: \<^verbatim>\<open>and\<close> does not
  evaluate \<^verbatim>\<open>.get\<close> on a false left operand.
\<close>

definition done_test :: "json \<Rightarrow> exn + bool" where
  "done_test response_data =
     (if truthy response_data then
        (case py_get response_data ''done'' of
           Inl e \<Rightarrow> Inl e
         | Inr d \<Rightarrow> Inr (truthy d))
      else Inr False)"

text \<open>The \<^verbatim>\<open>for\<close> loop of lines 63 to 69, by the number of iterations left.\<close>

fun poll_loop ::
  "remote \<Rightarrow> string \<Rightarrow> string \<Rightarrow> int \<Rightarrow> nat \<Rightarrow> world \<Rightarrow> (exn + json) \<times> world" where
  "poll_loop R api_key u delay 0 w = (Inr JNull, w)"
| "poll_loop R api_key u delay (Suc n) w =
     (case make_roblox_request R api_key ''GET'' u JNull True w of
        (Inl e, w') \<Rightarrow> (Inl e, w')
      | (Inr response_data, w') \<Rightarrow>
          (case done_test response_data of
             Inl e \<Rightarrow> (Inl e, w')
           | Inr True \<Rightarrow> (Inr response_data, w')
           | Inr False \<Rightarrow> poll_loop R api_key u delay n (sleep delay w')))"

definition poll_url :: "(json \<Rightarrow> string) \<Rightarrow> json \<Rightarrow> string" where
  "poll_url fmt operation_path = ROBLOX_API_BASE @ ''/'' @ py_str fmt operation_path"

definition poll_for_results ::
  "remote \<Rightarrow> (json \<Rightarrow> string) \<Rightarrow> string \<Rightarrow> json \<Rightarrow> int \<Rightarrow> int \<Rightarrow> world
    \<Rightarrow> (exn + json) \<times> world" where
  "poll_for_results R fmt api_key operation_path retries delay w =
     (let u = poll_url fmt operation_path
      in poll_loop R api_key u delay (nat retries) w)"

section \<open>The tool: \<^verbatim>\<open>update_script\<close>\<close>

text \<open>Lines 120 to 132: the message for what the poller returned.\<close>

definition poll_outcome :: "(json \<Rightarrow> string) \<Rightarrow> json \<Rightarrow> exn + string" where
  "poll_outcome fmt poll_result =
     (if truthy poll_result then
        (case py_get poll_result ''done'' of
           Inl e \<Rightarrow> Inl e
         | Inr d \<Rightarrow>
             if truthy d then
               (case py_in ''response'' poll_result of
                  Inl e \<Rightarrow> Inl e
                | Inr True \<Rightarrow>
                    (case py_getitem poll_result ''response'' of
                       Inl e \<Rightarrow> Inl e
                     | Inr v \<Rightarrow>
                         Inr (''Script updated successfully! Final Response: '' @ py_str fmt v))
                | Inr False \<Rightarrow>
                    (case py_in ''error'' poll_result of
                       Inl e \<Rightarrow> Inl e
                     | Inr True \<Rightarrow>
                         (case py_getitem poll_result ''error'' of
                            Inl e \<Rightarrow> Inl e
                          | Inr v \<Rightarrow> Inr (''Script update failed. Error: '' @ py_str fmt v))
                     | Inr False \<Rightarrow>
                         Inr ''Script update operation completed, but no response data found.''))
             else Inr ''Script update operation did not complete within the allowed time.'')
      else Inr ''Error: Failed to poll for script update status.'')"

text \<open>The URL of lines 92 to 93 and the body of lines 96 to 104.\<close>

definition instance_url :: "int \<Rightarrow> int \<Rightarrow> string \<Rightarrow> string" where
  "instance_url universe_id place_id instance_id =
     ROBLOX_API_BASE @ ''/universes/'' @ show_int universe_id @ ''/places/''
       @ show_int place_id @ ''/instances/'' @ instance_id"

definition patch_body :: "string \<Rightarrow> json" where
  "patch_body script_content =
     JObj [(''engineInstance'',
       JObj [(''Details'',
         JObj [(''Script'', JObj [(''Source'', JStr script_content)])])])]"

text \<open>
  \<open>env_key\<close> is what \<^verbatim>\<open>os.getenv("ROBLOX_API_KEY")\<close> returns: \<open>None\<close> when the variable
  is not set.
\<close>

definition update_script ::
  "remote \<Rightarrow> (json \<Rightarrow> string) \<Rightarrow> string option \<Rightarrow> int \<Rightarrow> int \<Rightarrow> string \<Rightarrow> string \<Rightarrow> world
    \<Rightarrow> (exn + string) \<times> world" where
  "update_script R fmt env_key universe_id place_id instance_id script_content w =
     (case env_key of
        None \<Rightarrow> (Inr ''Error: Roblox Open Cloud API Key is required.'', w)
      | Some api_key \<Rightarrow>
          if api_key = [] then (Inr ''Error: Roblox Open Cloud API Key is required.'', w)
          else
            (let u = instance_url universe_id place_id instance_id;
                 patch_data = patch_body script_content
             in case make_roblox_request R api_key ''PATCH'' u patch_data False w of
                  (Inl e, w1) \<Rightarrow> (Inl e, w1)
                | (Inr patch_response, w1) \<Rightarrow>
                    if patch_response = JNull then
                      (Inr ''Error: Failed to initiate script update.'', w1)
                    else
                      (case py_get patch_response ''path'' of
                         Inl e \<Rightarrow> (Inl e, w1)
                       | Inr operation_path \<Rightarrow>
                           if \<not> truthy operation_path then
                             (Inr ''Error: Operation path not found in PATCH response.'', w1)
                           else
                             (case poll_for_results R fmt api_key operation_path 10 5 w1 of
                                (Inl e, w2) \<Rightarrow> (Inl e, w2)
                              | (Inr poll_result, w2) \<Rightarrow> (poll_outcome fmt poll_result, w2)))))"

section \<open>Notions used in the statements\<close>

text \<open>
  What \<^verbatim>\<open>make_roblox_request\<close> hands to its caller when the network call has the
  outcome \<open>h\<close>: the value read from the response, or \<^verbatim>\<open>None\<close> after an exception
  (lemma \<open>make_roblox_request_GET\<close> below).
\<close>

definition executor_value :: "http_result \<Rightarrow> json" where
  "executor_value h = (case read_response h of Inl e \<Rightarrow> JNull | Inr v \<Rightarrow> v)"

text \<open>
  The value the executor returns to the poller on attempt \<open>j + 1\<close> of a polling
  sequence that starts in the world \<open>w\<close>.
\<close>

definition poll_reply ::
  "remote \<Rightarrow> (json \<Rightarrow> string) \<Rightarrow> string \<Rightarrow> json \<Rightarrow> world \<Rightarrow> nat \<Rightarrow> json" where
  "poll_reply R fmt api_key operation_path w j =
     executor_value
       (R (length (requests w) + j)
          (get_request (auth_headers api_key) (poll_url fmt operation_path)))"

text \<open>
  A response envelope is a JSON mapping, and \<^verbatim>\<open>None\<close> is its absence: the values of the
  return annotation \<^verbatim>\<open>dict | None\<close>.
\<close>

definition envelope_or_absent :: "json \<Rightarrow> bool" where
  "envelope_or_absent v = (case v of JNull \<Rightarrow> True | JObj kvs \<Rightarrow> True | _ \<Rightarrow> False)"

text \<open>A present envelope whose "done" field is truthy.\<close>

definition completed :: "json \<Rightarrow> bool" where
  "completed v =
     (case v of
        JObj kvs \<Rightarrow> (case map_of kvs ''done'' of None \<Rightarrow> False | Some d \<Rightarrow> truthy d)
      | _ \<Rightarrow> False)"

text \<open>
  \<open>is_casing s word\<close>: the string \<open>s\<close> is the lower-case \<open>word\<close> with each letter in
  either case.
\<close>

fun is_casing :: "string \<Rightarrow> string \<Rightarrow> bool" where
  "is_casing [] [] = True"
| "is_casing (c # cs) (d # ds) = ((c = d \<or> c = upper_char d) \<and> is_casing cs ds)"
| "is_casing cs ds = False"

subsection \<open>Concrete inputs\<close>

definition world0 :: world where
  "world0 = \<lparr>requests = [], slept = [], printed = []\<rparr>"

definition fmt_opaque :: "json \<Rightarrow> string" where
  "fmt_opaque v = ''<object>''"

definition ok_reply :: "json \<Rightarrow> http_result" where
  "ok_reply v = Reply \<lparr>status_code = 200, body_text = ''(json)'', json_result = Inr v\<rparr>"

definition operation_started :: json where
  "operation_started = JObj [(''path'', JStr ''operations/123'')]"

text \<open>A remote side that cannot be reached.\<close>

definition remote_unreachable :: remote where
  "remote_unreachable n rq = Fault ''All connection attempts failed''"

text \<open>The PATCH is accepted, but its response names no operation.\<close>

definition remote_no_path :: remote where
  "remote_no_path n rq = ok_reply (JObj [(''message'', JStr ''accepted'')])"

text \<open>The PATCH starts an operation; every poll finds it unfinished.\<close>

definition remote_never_done :: remote where
  "remote_never_done n rq =
     (case verb rq of
        PATCH \<Rightarrow> ok_reply operation_started
      | GET \<Rightarrow> ok_reply (JObj [(''done'', JBool False)]))"

text \<open>The PATCH starts an operation; the first poll finds it done, with no other field.\<close>

definition remote_done_bare :: remote where
  "remote_done_bare n rq =
     (case verb rq of
        PATCH \<Rightarrow> ok_reply operation_started
      | GET \<Rightarrow> ok_reply (JObj [(''done'', JBool True)]))"

text \<open>
  The first two network calls find the operation unfinished (the second one fails with
  status 503), the third finds it done.
\<close>

definition remote_done_third :: remote where
  "remote_done_third n rq =
     (if n = 0 then ok_reply (JObj [(''done'', JBool False)])
      else if n = 1 then
        Reply \<lparr>status_code = 503, body_text = ''Service Unavailable'',
               json_result = Inl ''Expecting value''\<rparr>
      else ok_reply (JObj [(''done'', JBool True), (''response'', JObj [(''status'', JStr ''ok'')])]))"

text \<open>A remote side that answers 200 with a body that is not JSON.\<close>

definition remote_not_json :: remote where
  "remote_not_json n rq =
     Reply \<lparr>status_code = 200, body_text = ''OK'', json_result = Inl ''Expecting value''\<rparr>"

section \<open>The executor and the polling loop, step by step\<close>

lemma upper_GET: "upper ''GET'' = ''GET''"
  by (simp add: upper_def upper_char_def)

lemma upper_PATCH: "upper ''PATCH'' = ''PATCH''"
  by (simp add: upper_def upper_char_def)

lemma except_clauses_shape:
  "\<exists>w'. except_clauses (r, w) = (Inr (case r of Inl e \<Rightarrow> JNull | Inr v \<Rightarrow> v), w')
        \<and> requests w' = requests w \<and> slept w' = slept w"
  by (simp add: except_clauses_def py_print_def split: sum.splits exn.splits)

lemma make_roblox_request_GET:
  "upper method = ''GET'' \<Longrightarrow>
   make_roblox_request R k method u d p w =
     except_clauses
       (read_response (R (length (requests w)) (get_request (auth_headers k) u)),
        w\<lparr>requests := requests w @ [get_request (auth_headers k) u]\<rparr>)"
  by (simp add: make_roblox_request_def try_body_def client_call_def Let_def)

lemma make_roblox_request_PATCH:
  "upper method = ''PATCH'' \<Longrightarrow>
   make_roblox_request R k method u d p w =
     except_clauses
       (read_response (R (length (requests w)) (patch_request (auth_headers k) u d)),
        w\<lparr>requests := requests w @ [patch_request (auth_headers k) u d]\<rparr>)"
  by (simp add: make_roblox_request_def try_body_def client_call_def Let_def)

lemma poll_call:
  "\<exists>w1. make_roblox_request R k ''GET'' u d p w =
           (Inr (executor_value (R (length (requests w)) (get_request (auth_headers k) u))), w1)
        \<and> requests w1 = requests w @ [get_request (auth_headers k) u]
        \<and> slept w1 = slept w"
proof -
  let ?rq = "get_request (auth_headers k) u"
  let ?w = "w\<lparr>requests := requests w @ [?rq]\<rparr>"
  from except_clauses_shape [of "read_response (R (length (requests w)) ?rq)" ?w]
  show ?thesis
    by (simp add: make_roblox_request_GET [OF upper_GET] executor_value_def)
qed

lemma done_test_envelope:
  "envelope_or_absent v \<Longrightarrow> done_test v = Inr (completed v)"
  by (cases v) (auto simp: done_test_def envelope_or_absent_def completed_def split: option.splits)

lemma done_test_True: "done_test v = Inr True \<Longrightarrow> completed v"
  by (cases v) (auto simp: done_test_def completed_def split: option.splits if_splits)

lemma completed_done_test: "completed v \<Longrightarrow> done_test v = Inr True"
  by (cases v) (auto simp: done_test_def completed_def split: option.splits if_splits)

lemma poll_loop_exhausted:
  "\<forall>j<n. envelope_or_absent (executor_value (R (length (requests w) + j) (get_request (auth_headers k) u)))
        \<and> \<not> completed (executor_value (R (length (requests w) + j) (get_request (auth_headers k) u)))
   \<Longrightarrow> fst (poll_loop R k u delay n w) = Inr JNull
     \<and> requests (snd (poll_loop R k u delay n w))
         = requests w @ replicate n (get_request (auth_headers k) u)
     \<and> slept (snd (poll_loop R k u delay n w)) = slept w @ replicate n delay"
proof (induction n arbitrary: w)
  case 0
  show ?case by simp
next
  case (Suc n)
  let ?rq = "get_request (auth_headers k) u"
  obtain w1 where call:
    "make_roblox_request R k ''GET'' u JNull True w
       = (Inr (executor_value (R (length (requests w)) ?rq)), w1)"
    and rq1: "requests w1 = requests w @ [?rq]" and sl1: "slept w1 = slept w"
    using poll_call by blast
  from Suc.prems have first:
    "envelope_or_absent (executor_value (R (length (requests w)) ?rq))"
    "\<not> completed (executor_value (R (length (requests w)) ?rq))"
    by (auto dest: spec [of _ 0])
  then have test: "done_test (executor_value (R (length (requests w)) ?rq)) = Inr False"
    by (simp add: done_test_envelope)
  let ?w2 = "sleep delay w1"
  have rq2: "requests ?w2 = requests w @ [?rq]" and sl2: "slept ?w2 = slept w @ [delay]"
    by (simp_all add: sleep_def rq1 sl1)
  have "\<forall>j<n. envelope_or_absent (executor_value (R (length (requests ?w2) + j) ?rq))
        \<and> \<not> completed (executor_value (R (length (requests ?w2) + j) ?rq))"
  proof (intro allI impI)
    fix j assume "j < n"
    then have "Suc j < Suc n" by simp
    from Suc.prems [rule_format, OF this] show "envelope_or_absent (executor_value (R (length (requests ?w2) + j) ?rq))
        \<and> \<not> completed (executor_value (R (length (requests ?w2) + j) ?rq))"
      by (simp add: rq2)
  qed
  from Suc.IH [OF this]
  show ?case
    by (simp add: call test rq2 sl2 replicate_app_Cons_same)
qed

lemma poll_loop_short_circuit:
  "i < n \<Longrightarrow>
   \<forall>j<i. envelope_or_absent (executor_value (R (length (requests w) + j) (get_request (auth_headers k) u)))
        \<and> \<not> completed (executor_value (R (length (requests w) + j) (get_request (auth_headers k) u)))
   \<Longrightarrow> completed (executor_value (R (length (requests w) + i) (get_request (auth_headers k) u)))
   \<Longrightarrow> fst (poll_loop R k u delay n w)
         = Inr (executor_value (R (length (requests w) + i) (get_request (auth_headers k) u)))
     \<and> requests (snd (poll_loop R k u delay n w))
         = requests w @ replicate (Suc i) (get_request (auth_headers k) u)
     \<and> slept (snd (poll_loop R k u delay n w)) = slept w @ replicate i delay"
proof (induction i arbitrary: n w)
  case 0
  let ?rq = "get_request (auth_headers k) u"
  from 0 obtain m where n: "n = Suc m" by (cases n) auto
  obtain w1 where call:
    "make_roblox_request R k ''GET'' u JNull True w
       = (Inr (executor_value (R (length (requests w)) ?rq)), w1)"
    and rq1: "requests w1 = requests w @ [?rq]" and sl1: "slept w1 = slept w"
    using poll_call by blast
  from 0 have "done_test (executor_value (R (length (requests w)) ?rq)) = Inr True"
    by (simp add: completed_done_test)
  then show ?case
    by (simp add: n call rq1 sl1)
next
  case (Suc i)
  let ?rq = "get_request (auth_headers k) u"
  from Suc.prems obtain m where n: "n = Suc m" and im: "i < m" by (cases n) auto
  obtain w1 where call:
    "make_roblox_request R k ''GET'' u JNull True w
       = (Inr (executor_value (R (length (requests w)) ?rq)), w1)"
    and rq1: "requests w1 = requests w @ [?rq]" and sl1: "slept w1 = slept w"
    using poll_call by blast
  from Suc.prems(2) have
    "envelope_or_absent (executor_value (R (length (requests w)) ?rq))"
    "\<not> completed (executor_value (R (length (requests w)) ?rq))"
    by (auto dest: spec [of _ 0])
  then have test: "done_test (executor_value (R (length (requests w)) ?rq)) = Inr False"
    by (simp add: done_test_envelope)
  let ?w2 = "sleep delay w1"
  have rq2: "requests ?w2 = requests w @ [?rq]" and sl2: "slept ?w2 = slept w @ [delay]"
    by (simp_all add: sleep_def rq1 sl1)
  have earlier: "\<forall>j<i. envelope_or_absent (executor_value (R (length (requests ?w2) + j) ?rq))
        \<and> \<not> completed (executor_value (R (length (requests ?w2) + j) ?rq))"
  proof (intro allI impI)
    fix j assume "j < i"
    then have "Suc j < Suc i" by simp
    from Suc.prems(2) [rule_format, OF this] show "envelope_or_absent (executor_value (R (length (requests ?w2) + j) ?rq))
        \<and> \<not> completed (executor_value (R (length (requests ?w2) + j) ?rq))"
      by (simp add: rq2)
  qed
  have last: "completed (executor_value (R (length (requests ?w2) + i) ?rq))"
    using Suc.prems(3) by (simp add: rq2)
  from Suc.IH [OF im earlier last]
  show ?case
    by (simp add: n call test rq2 sl2 replicate_app_Cons_same)
qed

lemma poll_loop_returns_completed:
  "poll_loop R k u delay n w = (Inr v, w') \<Longrightarrow> v \<noteq> JNull \<Longrightarrow> completed v"
proof (induction n arbitrary: w)
  case 0
  then show ?case by simp
next
  case (Suc n)
  then show ?case
    by (auto split: prod.splits sum.splits bool.splits dest: done_test_True)
qed

lemma upper_char_idem: "upper_char (upper_char c) = upper_char c"
  by (simp add: upper_char_def)

lemma is_casing_upper: "is_casing s word \<Longrightarrow> upper s = upper word"
  by (induction s word rule: is_casing.induct) (auto simp: upper_def upper_char_idem)

lemma upper_get: "upper ''get'' = ''GET''"
  by (simp add: upper_def upper_char_def)

lemma upper_patch: "upper ''patch'' = ''PATCH''"
  by (simp add: upper_def upper_char_def)

lemma patch_call:
  "\<exists>w1. make_roblox_request R k ''PATCH'' u d p w =
           (Inr (executor_value (R (length (requests w)) (patch_request (auth_headers k) u d))), w1)
        \<and> requests w1 = requests w @ [patch_request (auth_headers k) u d]
        \<and> slept w1 = slept w"
proof -
  let ?rq = "patch_request (auth_headers k) u d"
  let ?w = "w\<lparr>requests := requests w @ [?rq]\<rparr>"
  from except_clauses_shape [of "read_response (R (length (requests w)) ?rq)" ?w]
  show ?thesis
    by (simp add: make_roblox_request_PATCH [OF upper_PATCH] executor_value_def)
qed

lemma patch_effects:
  "requests (snd (make_roblox_request R k ''PATCH'' u d p w))
     = requests w @ [patch_request (auth_headers k) u d]"
  "slept (snd (make_roblox_request R k ''PATCH'' u d p w)) = slept w"
  using patch_call [of R k u d p w] by auto

text \<open>
  \<^verbatim>\<open>update_script\<close> once the PATCH has named an operation, and when it has not.
\<close>

lemma update_script_polls:
  assumes key: "api_key \<noteq> []"
    and patch: "make_roblox_request R api_key ''PATCH''
                  (instance_url universe_id place_id instance_id) (patch_body script_content)
                  False w = (Inr patch_response, w1)"
    and path: "py_get patch_response ''path'' = Inr operation_path" "truthy operation_path"
    and poll: "poll_for_results R fmt api_key operation_path 10 5 w1 = (Inr poll_result, w2)"
  shows "update_script R fmt (Some api_key) universe_id place_id instance_id script_content w
           = (poll_outcome fmt poll_result, w2)"
proof -
  from path(1) have "patch_response \<noteq> JNull" by auto
  with key patch path poll show ?thesis
    by (simp add: update_script_def Let_def)
qed

lemma update_script_no_path:
  assumes key: "api_key \<noteq> []"
    and patch: "make_roblox_request R api_key ''PATCH''
                  (instance_url universe_id place_id instance_id) (patch_body script_content)
                  False w = (Inr patch_response, w1)"
    and path: "py_get patch_response ''path'' = Inr operation_path" "\<not> truthy operation_path"
  shows "update_script R fmt (Some api_key) universe_id place_id instance_id script_content w
           = (Inr ''Error: Operation path not found in PATCH response.'', w1)"
proof -
  from path(1) have "patch_response \<noteq> JNull" by auto
  with key patch path show ?thesis
    by (simp add: update_script_def Let_def)
qed

text \<open>
  The test of line 66 on a truthy value that is not a dict (a JSON list, string, number
  or \<^verbatim>\<open>true\<close>, which the annotation \<^verbatim>\<open>dict | None\<close> leaves out) raises
  \<^verbatim>\<open>AttributeError\<close>.
\<close>

lemma done_test_non_dict:
  "truthy v \<Longrightarrow> \<forall>kvs. v \<noteq> JObj kvs \<Longrightarrow> \<exists>m. done_test v = Inl (AttributeError m)"
  by (cases v) (simp_all add: done_test_def)

text \<open>
  The poller returns \<^verbatim>\<open>None\<close> or a completed envelope, so the message of line 130 is
  returned on no run of \<^verbatim>\<open>update_script\<close>.
\<close>

lemma poll_for_results_value:
  "poll_for_results R fmt k path retries delay w = (Inr v, w') \<Longrightarrow> v = JNull \<or> completed v"
  unfolding poll_for_results_def Let_def
  using poll_loop_returns_completed by blast

lemma poll_outcome_not_timeout:
  "v = JNull \<or> completed v \<Longrightarrow>
   poll_outcome fmt v \<noteq> Inr ''Script update operation did not complete within the allowed time.''"
  by (cases v) (auto simp: poll_outcome_def completed_def split: option.splits bool.splits)

lemma timeout_message_unreachable:
  "fst (update_script R fmt env_key universe_id place_id instance_id script_content w)
     \<noteq> Inr ''Script update operation did not complete within the allowed time.''"
proof (cases "env_key = None \<or> env_key = Some []")
  case True
  then show ?thesis by (auto simp: update_script_def)
next
  case False
  then obtain k where k: "env_key = Some k" "k \<noteq> []" by (cases env_key) auto
  obtain r w1 where patch: "make_roblox_request R k ''PATCH''
      (instance_url universe_id place_id instance_id) (patch_body script_content) False w = (r, w1)"
    by (cases "make_roblox_request R k ''PATCH''
      (instance_url universe_id place_id instance_id) (patch_body script_content) False w") auto
  show ?thesis
  proof (cases r)
    case (Inl e)
    with k patch show ?thesis by (simp add: update_script_def Let_def)
  next
    case (Inr pr)
    show ?thesis
    proof (cases "pr = JNull")
      case True
      with k patch Inr show ?thesis by (simp add: update_script_def Let_def)
    next
      case notnull: False
      show ?thesis
      proof (cases "py_get pr ''path''")
        case (Inl e)
        with k patch Inr notnull show ?thesis by (simp add: update_script_def Let_def)
      next
        case path: (Inr op)
        show ?thesis
        proof (cases "truthy op")
          case False
          with k patch Inr notnull path show ?thesis by (simp add: update_script_def Let_def)
        next
          case True
          obtain pres w2 where poll: "poll_for_results R fmt k op 10 5 w1 = (pres, w2)"
            by (cases "poll_for_results R fmt k op 10 5 w1") auto
          show ?thesis
          proof (cases pres)
            case (Inl e)
            with k patch Inr notnull path True poll show ?thesis
              by (simp add: update_script_def Let_def)
          next
            case res: (Inr v)
            with poll have "v = JNull \<or> completed v" by (simp add: poll_for_results_value)
            then have "poll_outcome fmt v
              \<noteq> Inr ''Script update operation did not complete within the allowed time.''"
              by (rule poll_outcome_not_timeout)
            with k patch Inr notnull path True poll res show ?thesis
              by (simp add: update_script_def Let_def)
          qed
        qed
      qed
    qed
  qed
qed

section \<open>Runs of the concrete inputs\<close>

lemma world0_simps:
  "requests world0 = []" "slept world0 = []" "printed world0 = []"
  by (simp_all add: world0_def)

lemma replicate_two: "replicate 2 x = [x, x]"
  by (simp add: numeral_2_eq_2)

lemma done_third_replies:
  "poll_reply remote_done_third fmt k path world0 0 = JObj [(''done'', JBool False)]"
  "poll_reply remote_done_third fmt k path world0 (Suc 0) = JNull"
  "poll_reply remote_done_third fmt k path world0 2
     = JObj [(''done'', JBool True), (''response'', JObj [(''status'', JStr ''ok'')])]"
  by (simp_all add: poll_reply_def world0_simps remote_done_third_def ok_reply_def
      executor_value_def read_response_def raise_for_status_def)

lemma done_bare_reply:
  "poll_reply remote_done_bare fmt k path w j = JObj [(''done'', JBool True)]"
  by (simp add: poll_reply_def remote_done_bare_def ok_reply_def get_request_def
      executor_value_def read_response_def raise_for_status_def)

lemma never_done_reply:
  "poll_reply remote_never_done fmt k path w j = JObj [(''done'', JBool False)]"
  by (simp add: poll_reply_def remote_never_done_def ok_reply_def get_request_def
      executor_value_def read_response_def raise_for_status_def)

lemma started_patch:
  "R = remote_never_done \<or> R = remote_done_bare \<Longrightarrow>
   make_roblox_request R k ''PATCH'' u d p w
     = (Inr operation_started, snd (make_roblox_request R k ''PATCH'' u d p w))"
  using patch_call [of R k u d p w]
  by (auto simp: remote_never_done_def remote_done_bare_def patch_request_def ok_reply_def
      executor_value_def read_response_def raise_for_status_def)

lemma started_path:
  "py_get operation_started ''path'' = Inr (JStr ''operations/123'')"
  "truthy (JStr ''operations/123'')"
  by (simp_all add: operation_started_def)

lemma never_done_poll:
  "fst (poll_for_results remote_never_done fmt k path retries delay w) = Inr JNull"
  "requests (snd (poll_for_results remote_never_done fmt k path retries delay w))
     = requests w @ replicate (nat retries) (get_request (auth_headers k) (poll_url fmt path))"
  "slept (snd (poll_for_results remote_never_done fmt k path retries delay w))
     = slept w @ replicate (nat retries) delay"
proof -
  have "\<forall>j<nat retries.
      envelope_or_absent (executor_value (remote_never_done (length (requests w) + j)
         (get_request (auth_headers k) (poll_url fmt path))))
    \<and> \<not> completed (executor_value (remote_never_done (length (requests w) + j)
         (get_request (auth_headers k) (poll_url fmt path))))"
    by (simp add: remote_never_done_def ok_reply_def get_request_def executor_value_def
        read_response_def raise_for_status_def envelope_or_absent_def completed_def)
  from poll_loop_exhausted [where R = remote_never_done and w = w and k = k
      and u = "poll_url fmt path" and n = "nat retries" and delay = delay, OF this]
  show "fst (poll_for_results remote_never_done fmt k path retries delay w) = Inr JNull"
  "requests (snd (poll_for_results remote_never_done fmt k path retries delay w))
     = requests w @ replicate (nat retries) (get_request (auth_headers k) (poll_url fmt path))"
  "slept (snd (poll_for_results remote_never_done fmt k path retries delay w))
     = slept w @ replicate (nat retries) delay"
    by (simp_all add: poll_for_results_def)
qed

lemma done_bare_poll:
  "fst (poll_for_results remote_done_bare fmt k path 10 5 w) = Inr (JObj [(''done'', JBool True)])"
proof -
  have a: "(0::nat) < nat 10" by simp
  have c: "completed (executor_value (remote_done_bare (length (requests w) + 0)
         (get_request (auth_headers k) (poll_url fmt path))))"
    by (simp add: remote_done_bare_def ok_reply_def get_request_def executor_value_def
        read_response_def raise_for_status_def completed_def)
  have v: "executor_value (remote_done_bare (length (requests w) + 0)
         (get_request (auth_headers k) (poll_url fmt path))) = JObj [(''done'', JBool True)]"
    by (simp add: remote_done_bare_def ok_reply_def get_request_def executor_value_def
        read_response_def raise_for_status_def)
  from poll_loop_short_circuit [where R = remote_done_bare and w = w and k = k
      and u = "poll_url fmt path" and n = "nat 10" and i = 0 and delay = 5, OF a _ c] v
  show ?thesis by (simp add: poll_for_results_def)
qed

lemma no_path_patch:
  "make_roblox_request remote_no_path k ''PATCH'' u d p w
     = (Inr (JObj [(''message'', JStr ''accepted'')]),
        snd (make_roblox_request remote_no_path k ''PATCH'' u d p w))"
  using patch_call [of remote_no_path k u d p w]
  by (auto simp: remote_no_path_def ok_reply_def executor_value_def read_response_def
      raise_for_status_def)

section \<open>The claims\<close>

subsection \<open>C1\<close>

text \<open>
  C1, as the specification states it: a method that is neither GET nor PATCH makes
  \<^verbatim>\<open>make_roblox_request\<close> raise a contract violation that reaches its caller. The
  code does not do that. With the method DELETE the \<^verbatim>\<open>ValueError\<close> of line 46 is raised
  inside the \<^verbatim>\<open>try\<close> and caught by \<^verbatim>\<open>except Exception\<close> on line 55, so the
  caller gets \<^verbatim>\<open>None\<close> and no exception.
\<close>

theorem unsupported_method_counterexample:
  "fst (make_roblox_request remote_unreachable ''key'' ''DELETE''
          ''https://apis.roblox.com/cloud/v2/universes/1'' JNull False world0) = Inr JNull
   \<and> \<not> isl (fst (make_roblox_request remote_unreachable ''key'' ''DELETE''
          ''https://apis.roblox.com/cloud/v2/universes/1'' JNull False world0))"
  by (simp add: make_roblox_request_def try_body_def except_clauses_def upper_def
      upper_char_def Let_def)

text \<open>
  C1, amended: for every credential, URL and body, and every method whose upper-case
  form is neither GET nor PATCH, \<^verbatim>\<open>make_roblox_request\<close> sends nothing over the network,
  prints the line "Error making Roblox API request: Unsupported HTTP method: <method>",
  and returns \<^verbatim>\<open>None\<close>; no exception reaches its caller.
\<close>

theorem unsupported_method_returns_absent:
  "upper method \<noteq> ''GET'' \<Longrightarrow> upper method \<noteq> ''PATCH'' \<Longrightarrow>
   make_roblox_request R api_key method u data is_polling w
     = (Inr JNull,
        w\<lparr>printed := printed w
              @ [''Error making Roblox API request: Unsupported HTTP method: '' @ method]\<rparr>)"
  by (simp add: make_roblox_request_def try_body_def except_clauses_def py_print_def Let_def)

text \<open>
  C1, amended, at the method POST.
\<close>

theorem unsupported_method_returns_absent_witness:
  "upper ''POST'' \<noteq> ''GET'' \<and> upper ''POST'' \<noteq> ''PATCH''
   \<and> make_roblox_request remote_no_path ''key'' ''POST'' ''https://apis.roblox.com/cloud/v2/universes/1''
        (JObj []) False world0
     = (Inr JNull,
        \<lparr>requests = [], slept = [],
         printed = [''Error making Roblox API request: Unsupported HTTP method: POST'']\<rparr>)"
proof -
  have a: "upper ''POST'' \<noteq> ''GET''" and b: "upper ''POST'' \<noteq> ''PATCH''"
    by (simp_all add: upper_def upper_char_def)
  from unsupported_method_returns_absent [OF a b, of remote_no_path "''key''"
      "''https://apis.roblox.com/cloud/v2/universes/1''" "JObj []" False world0]
  show ?thesis using a b by (simp add: world0_def)
qed

subsection \<open>C2\<close>

text \<open>
  C2: the PATCH succeeds and names an operation, and every one of the 10 polls returns
  an envelope whose "done" is false. The specification expects the message of line 130,
  "Script update operation did not complete within the allowed time."; the code returns
  "Error: Failed to poll for script update status.", after 11 requests and 10 delays,
  because \<^verbatim>\<open>poll_for_results\<close> returns \<^verbatim>\<open>None\<close> once its attempts are used up.
\<close>

theorem update_script_timeout_is_poll_failure:
  "fst (update_script remote_never_done fmt_opaque (Some ''key'') 1 2 ''inst'' ''print(1)'' world0)
     = Inr ''Error: Failed to poll for script update status.''
   \<and> length (requests (snd (update_script remote_never_done fmt_opaque (Some ''key'') 1 2
         ''inst'' ''print(1)'' world0))) = 11
   \<and> slept (snd (update_script remote_never_done fmt_opaque (Some ''key'') 1 2
         ''inst'' ''print(1)'' world0)) = replicate 10 5"
proof -
  let ?w1 = "snd (make_roblox_request remote_never_done ''key'' ''PATCH''
                  (instance_url 1 2 ''inst'') (patch_body ''print(1)'') False world0)"
  let ?poll = "poll_for_results remote_never_done fmt_opaque ''key'' (JStr ''operations/123'') 10 5 ?w1"
  have key: "''key'' \<noteq> []" by simp
  have patch: "make_roblox_request remote_never_done ''key'' ''PATCH''
                  (instance_url 1 2 ''inst'') (patch_body ''print(1)'') False world0
                 = (Inr operation_started, ?w1)"
    by (rule started_patch) simp
  have poll: "?poll = (Inr JNull, snd ?poll)"
    by (simp add: prod_eq_iff never_done_poll)
  have run: "update_script remote_never_done fmt_opaque (Some ''key'') 1 2 ''inst'' ''print(1)'' world0
      = (poll_outcome fmt_opaque JNull, snd ?poll)"
    by (rule update_script_polls [OF key patch started_path poll])
  show ?thesis
    by (simp add: run poll_outcome_def never_done_poll patch_effects world0_simps)
qed

subsection \<open>C3\<close>

text \<open>
  C3, as the specification states it: when polling ends with an envelope that has
  "done" true and neither "response" nor "error", the outcome contains "did not complete
  within the allowed time". On such a run the code returns the message of line 128,
  which does not contain those words.
\<close>

theorem done_without_fields_counterexample:
  "fst (update_script remote_done_bare fmt_opaque (Some ''key'') 1 2 ''inst'' ''print(1)'' world0)
     = Inr ''Script update operation completed, but no response data found.''
   \<and> \<not> sublist ''did not complete within the allowed time''
         ''Script update operation completed, but no response data found.''"
proof -
  let ?w1 = "snd (make_roblox_request remote_done_bare ''key'' ''PATCH''
                  (instance_url 1 2 ''inst'') (patch_body ''print(1)'') False world0)"
  let ?poll = "poll_for_results remote_done_bare fmt_opaque ''key'' (JStr ''operations/123'') 10 5 ?w1"
  have key: "''key'' \<noteq> []" by simp
  have patch: "make_roblox_request remote_done_bare ''key'' ''PATCH''
                  (instance_url 1 2 ''inst'') (patch_body ''print(1)'') False world0
                 = (Inr operation_started, ?w1)"
    by (rule started_patch) simp
  have poll: "?poll = (Inr (JObj [(''done'', JBool True)]), snd ?poll)"
    by (simp add: prod_eq_iff done_bare_poll)
  have run: "update_script remote_done_bare fmt_opaque (Some ''key'') 1 2 ''inst'' ''print(1)'' world0
      = (poll_outcome fmt_opaque (JObj [(''done'', JBool True)]), snd ?poll)"
    by (rule update_script_polls [OF key patch started_path poll])
  have words: "\<not> sublist ''did not complete within the allowed time''
         ''Script update operation completed, but no response data found.''"
    by (simp add: sublist_code(3))
  show ?thesis
    by (simp add: run poll_outcome_def words)
qed

text \<open>
  C3, amended: when the PATCH succeeds and names an operation, and polling returns an
  envelope with a truthy "done" and neither a "response" nor an "error" field, the
  outcome is exactly "Script update operation completed, but no response data found.".
\<close>

theorem update_script_done_without_fields:
  assumes "env_key = Some api_key" and "api_key \<noteq> []"
    and "make_roblox_request R api_key ''PATCH''
           (instance_url universe_id place_id instance_id) (patch_body script_content) False w
         = (Inr patch_response, w1)"
    and "py_get patch_response ''path'' = Inr operation_path" and "truthy operation_path"
    and "poll_for_results R fmt api_key operation_path 10 5 w1 = (Inr (JObj kvs), w2)"
    and "map_of kvs ''done'' = Some d" and "truthy d"
    and "map_of kvs ''response'' = None" and "map_of kvs ''error'' = None"
  shows "update_script R fmt env_key universe_id place_id instance_id script_content w
           = (Inr ''Script update operation completed, but no response data found.'', w2)"
proof -
  from assms(7) have "kvs \<noteq> []" by auto
  with assms(7-10) have
    "poll_outcome fmt (JObj kvs)
       = Inr ''Script update operation completed, but no response data found.''"
    by (simp add: poll_outcome_def)
  with update_script_polls [OF assms(2) assms(3) assms(4) assms(5) assms(6)] assms(1)
  show ?thesis by simp
qed

text \<open>
  C3, amended, on a run whose first poll returns the envelope with the single field
  "done".
\<close>

theorem update_script_done_without_fields_witness:
  "update_script remote_done_bare fmt_opaque (Some ''secret'') 7 8 ''abc'' ''print(2)'' world0
     = (Inr ''Script update operation completed, but no response data found.'',
        snd (poll_for_results remote_done_bare fmt_opaque ''secret'' (JStr ''operations/123'') 10 5
          (snd (make_roblox_request remote_done_bare ''secret'' ''PATCH''
                  (instance_url 7 8 ''abc'') (patch_body ''print(2)'') False world0))))"
proof -
  let ?w1 = "snd (make_roblox_request remote_done_bare ''secret'' ''PATCH''
                  (instance_url 7 8 ''abc'') (patch_body ''print(2)'') False world0)"
  let ?poll = "poll_for_results remote_done_bare fmt_opaque ''secret'' (JStr ''operations/123'') 10 5 ?w1"
  have key: "''secret'' \<noteq> []" by simp
  have patch: "make_roblox_request remote_done_bare ''secret'' ''PATCH''
                  (instance_url 7 8 ''abc'') (patch_body ''print(2)'') False world0
                 = (Inr operation_started, ?w1)"
    by (rule started_patch) simp
  have poll: "?poll = (Inr (JObj [(''done'', JBool True)]), snd ?poll)"
    by (simp add: prod_eq_iff done_bare_poll)
  have d: "map_of [(''done'', JBool True)] ''done'' = Some (JBool True)"
    and t: "truthy (JBool True)"
    and r: "map_of [(''done'', JBool True)] ''response'' = None"
    and e: "map_of [(''done'', JBool True)] ''error'' = None"
    by simp_all
  show ?thesis
    by (rule update_script_done_without_fields [OF refl key patch started_path poll d t r e])
qed

subsection \<open>C4\<close>

text \<open>
  C4, as the specification states it: when the PATCH response has no "path" field the
  outcome is exactly "Operation path not found in PATCH response.". The code's message
  starts with "Error: ".
\<close>

theorem missing_path_counterexample:
  "fst (update_script remote_no_path fmt_opaque (Some ''key'') 1 2 ''inst'' ''print(1)'' world0)
     = Inr ''Error: Operation path not found in PATCH response.''
   \<and> fst (update_script remote_no_path fmt_opaque (Some ''key'') 1 2 ''inst'' ''print(1)'' world0)
     \<noteq> Inr ''Operation path not found in PATCH response.''"
proof -
  have key: "''key'' \<noteq> []" by simp
  have path: "py_get (JObj [(''message'', JStr ''accepted'')]) ''path'' = Inr JNull"
    and falsy: "\<not> truthy JNull"
    by simp_all
  show ?thesis
    by (simp add: update_script_no_path [OF key no_path_patch path falsy])
qed

text \<open>
  C4, amended: when the PATCH succeeds (the executor returns an envelope) and the
  envelope has no "path" field, the outcome is exactly
  "Error: Operation path not found in PATCH response.", and nothing more is sent.
\<close>

theorem update_script_missing_path:
  assumes "env_key = Some api_key" and "api_key \<noteq> []"
    and "make_roblox_request R api_key ''PATCH''
           (instance_url universe_id place_id instance_id) (patch_body script_content) False w
         = (Inr (JObj kvs), w1)"
    and "map_of kvs ''path'' = None"
  shows "update_script R fmt env_key universe_id place_id instance_id script_content w
           = (Inr ''Error: Operation path not found in PATCH response.'', w1)
         \<and> requests w1
           = requests w @ [patch_request (auth_headers api_key)
                (instance_url universe_id place_id instance_id) (patch_body script_content)]"
proof -
  from assms(4) have path: "py_get (JObj kvs) ''path'' = Inr JNull" by simp
  have falsy: "\<not> truthy JNull" by simp
  from patch_effects(1) [of R api_key "instance_url universe_id place_id instance_id"
      "patch_body script_content" False w] assms(3)
  have "requests w1
           = requests w @ [patch_request (auth_headers api_key)
                (instance_url universe_id place_id instance_id) (patch_body script_content)]"
    by simp
  with update_script_no_path [OF assms(2) assms(3) path falsy] assms(1)
  show ?thesis by simp
qed

text \<open>
  C4, amended, on a run whose PATCH response is an envelope with the single field
  "message".
\<close>

theorem update_script_missing_path_witness:
  "update_script remote_no_path fmt_opaque (Some ''secret'') 7 8 ''abc'' ''print(2)'' world0
     = (Inr ''Error: Operation path not found in PATCH response.'',
        snd (make_roblox_request remote_no_path ''secret'' ''PATCH''
               (instance_url 7 8 ''abc'') (patch_body ''print(2)'') False world0))
   \<and> length (requests (snd (make_roblox_request remote_no_path ''secret'' ''PATCH''
               (instance_url 7 8 ''abc'') (patch_body ''print(2)'') False world0))) = 1"
proof -
  have key: "''secret'' \<noteq> []" by simp
  have none: "map_of [(''message'', JStr ''accepted'')] ''path'' = None" by simp
  from update_script_missing_path [OF refl key no_path_patch none, of fmt_opaque]
  show ?thesis by (simp add: world0_simps)
qed

subsection \<open>C5\<close>

text \<open>
  C5: let attempt \<open>i + 1\<close> be the first one whose envelope is present and has a truthy
  "done", all earlier attempts having returned an envelope or \<^verbatim>\<open>None\<close>. Then
  \<^verbatim>\<open>poll_for_results\<close> returns the envelope of that attempt, after exactly \<open>i + 1\<close>
  executor calls and exactly \<open>i\<close> delays: there is no delay after that attempt and no
  later call. With \<open>i = 0\<close>, a "done" on the first attempt costs no delay at all.
\<close>

theorem poll_for_results_short_circuit:
  "i < nat retries \<Longrightarrow>
   \<forall>j<i. envelope_or_absent (poll_reply R fmt api_key operation_path w j)
        \<and> \<not> completed (poll_reply R fmt api_key operation_path w j) \<Longrightarrow>
   completed (poll_reply R fmt api_key operation_path w i) \<Longrightarrow>
   fst (poll_for_results R fmt api_key operation_path retries delay w)
     = Inr (poll_reply R fmt api_key operation_path w i)
   \<and> requests (snd (poll_for_results R fmt api_key operation_path retries delay w))
     = requests w
       @ replicate (Suc i) (get_request (auth_headers api_key) (poll_url fmt operation_path))
   \<and> slept (snd (poll_for_results R fmt api_key operation_path retries delay w))
     = slept w @ replicate i delay"
  unfolding poll_reply_def poll_for_results_def Let_def
  by (rule poll_loop_short_circuit)

text \<open>
  C5 on two runs of 10 attempts at most: "done" on the third attempt (three calls, two
  delays of 5), and "done" on the first attempt (one call, no delay).
\<close>

theorem poll_for_results_short_circuit_witness:
  "fst (poll_for_results remote_done_third fmt_opaque ''key'' (JStr ''operations/123'') 10 5 world0)
     = Inr (JObj [(''done'', JBool True), (''response'', JObj [(''status'', JStr ''ok'')])])
   \<and> length (requests (snd (poll_for_results remote_done_third fmt_opaque ''key''
         (JStr ''operations/123'') 10 5 world0))) = 3
   \<and> slept (snd (poll_for_results remote_done_third fmt_opaque ''key''
         (JStr ''operations/123'') 10 5 world0)) = [5, 5]
   \<and> fst (poll_for_results remote_done_bare fmt_opaque ''key'' (JStr ''operations/123'') 10 5 world0)
     = Inr (JObj [(''done'', JBool True)])
   \<and> length (requests (snd (poll_for_results remote_done_bare fmt_opaque ''key''
         (JStr ''operations/123'') 10 5 world0))) = 1
   \<and> slept (snd (poll_for_results remote_done_bare fmt_opaque ''key''
         (JStr ''operations/123'') 10 5 world0)) = []"
proof -
  let ?p = "JStr ''operations/123''"
  have a: "(2::nat) < nat 10" and a0: "(0::nat) < nat 10" by simp_all
  have b: "\<forall>j<2. envelope_or_absent (poll_reply remote_done_third fmt_opaque ''key'' ?p world0 j)
        \<and> \<not> completed (poll_reply remote_done_third fmt_opaque ''key'' ?p world0 j)"
    by (auto dest!: less_2_cases simp: done_third_replies envelope_or_absent_def completed_def)
  have c: "completed (poll_reply remote_done_third fmt_opaque ''key'' ?p world0 2)"
    by (simp add: done_third_replies completed_def)
  have b0: "\<forall>j<0. envelope_or_absent (poll_reply remote_done_bare fmt_opaque ''key'' ?p world0 j)
        \<and> \<not> completed (poll_reply remote_done_bare fmt_opaque ''key'' ?p world0 j)"
    by simp
  have c0: "completed (poll_reply remote_done_bare fmt_opaque ''key'' ?p world0 0)"
    by (simp add: done_bare_reply completed_def)
  from poll_for_results_short_circuit [OF a b c, of 5]
    poll_for_results_short_circuit [OF a0 b0 c0, of 5]
  show ?thesis
    by (simp add: done_third_replies done_bare_reply world0_simps replicate_two)
qed

subsection \<open>C6\<close>

text \<open>
  C6: when none of the \<^verbatim>\<open>retries\<close> attempts returns a present envelope with a truthy
  "done" (each returns an envelope or \<^verbatim>\<open>None\<close>), \<^verbatim>\<open>poll_for_results\<close> makes exactly
  \<^verbatim>\<open>retries\<close> executor calls and as many delays, then returns \<^verbatim>\<open>None\<close>. The loop is
  a structural recursion on the number of attempts left, so it always terminates. The
  defaults are \<^verbatim>\<open>retries = 10\<close> and \<^verbatim>\<open>delay = 5\<close>.
\<close>

theorem poll_for_results_exhausted:
  "\<forall>j<nat retries. envelope_or_absent (poll_reply R fmt api_key operation_path w j)
        \<and> \<not> completed (poll_reply R fmt api_key operation_path w j) \<Longrightarrow>
   fst (poll_for_results R fmt api_key operation_path retries delay w) = Inr JNull
   \<and> requests (snd (poll_for_results R fmt api_key operation_path retries delay w))
     = requests w
       @ replicate (nat retries) (get_request (auth_headers api_key) (poll_url fmt operation_path))
   \<and> slept (snd (poll_for_results R fmt api_key operation_path retries delay w))
     = slept w @ replicate (nat retries) delay"
  unfolding poll_reply_def poll_for_results_def Let_def
  by (rule poll_loop_exhausted)

text \<open>
  C6 at the defaults: 10 calls, 10 delays of 5, and \<^verbatim>\<open>None\<close>.
\<close>

theorem poll_for_results_exhausted_witness:
  "fst (poll_for_results remote_never_done fmt_opaque ''key'' (JStr ''operations/123'') 10 5 world0)
     = Inr JNull
   \<and> length (requests (snd (poll_for_results remote_never_done fmt_opaque ''key''
         (JStr ''operations/123'') 10 5 world0))) = 10
   \<and> slept (snd (poll_for_results remote_never_done fmt_opaque ''key''
         (JStr ''operations/123'') 10 5 world0)) = replicate 10 5"
proof -
  let ?p = "JStr ''operations/123''"
  have b: "\<forall>j<nat 10. envelope_or_absent (poll_reply remote_never_done fmt_opaque ''key'' ?p world0 j)
        \<and> \<not> completed (poll_reply remote_never_done fmt_opaque ''key'' ?p world0 j)"
    by (simp add: never_done_reply envelope_or_absent_def completed_def)
  from poll_for_results_exhausted [OF b, of 5]
  show ?thesis
    by (simp add: world0_simps)
qed

subsection \<open>C7\<close>

text \<open>
  C7: for a method whose upper-case form is GET or PATCH, and whatever the remote side
  does, \<^verbatim>\<open>make_roblox_request\<close> returns a value (it never raises) after exactly one
  network call. A 2xx response whose body parses gives the parsed body; a 2xx response
  whose body does not parse, a response with another status, and a transport fault or
  timeout all give \<^verbatim>\<open>None\<close>.
\<close>

theorem make_roblox_request_never_raises:
  "upper method = ''GET'' \<or> upper method = ''PATCH'' \<Longrightarrow>
   rq = (if upper method = ''GET'' then get_request (auth_headers api_key) u
         else patch_request (auth_headers api_key) u data) \<Longrightarrow>
   h = R (length (requests w)) rq \<Longrightarrow>
   res = make_roblox_request R api_key method u data is_polling w \<Longrightarrow>
   (\<exists>v. fst res = Inr v)
   \<and> requests (snd res) = requests w @ [rq]
   \<and> (\<forall>r v. h = Reply r \<and> 200 \<le> status_code r \<and> status_code r \<le> 299
              \<and> json_result r = Inr v \<longrightarrow> fst res = Inr v)
   \<and> (\<forall>r m. h = Reply r \<and> 200 \<le> status_code r \<and> status_code r \<le> 299
              \<and> json_result r = Inl m \<longrightarrow> fst res = Inr JNull)
   \<and> (\<forall>r. h = Reply r \<and> \<not> (200 \<le> status_code r \<and> status_code r \<le> 299)
              \<longrightarrow> fst res = Inr JNull)
   \<and> (\<forall>m. h = Fault m \<longrightarrow> fst res = Inr JNull)"
proof -
  assume supported: "upper method = ''GET'' \<or> upper method = ''PATCH''"
    and rq: "rq = (if upper method = ''GET'' then get_request (auth_headers api_key) u
         else patch_request (auth_headers api_key) u data)"
    and h: "h = R (length (requests w)) rq"
    and res: "res = make_roblox_request R api_key method u data is_polling w"
  have run: "res = except_clauses (read_response h, w\<lparr>requests := requests w @ [rq]\<rparr>)"
    using supported
  proof
    assume "upper method = ''GET''"
    then show ?thesis by (simp add: res h rq make_roblox_request_GET)
  next
    assume "upper method = ''PATCH''"
    then show ?thesis by (simp add: res h rq make_roblox_request_PATCH)
  qed
  from except_clauses_shape [of "read_response h" "w\<lparr>requests := requests w @ [rq]\<rparr>"]
  obtain w' where shape:
    "res = (Inr (case read_response h of Inl e \<Rightarrow> JNull | Inr v \<Rightarrow> v), w')"
    and rqs: "requests w' = requests w @ [rq]"
    unfolding run by auto
  have value_of: "fst res = Inr (case read_response h of Inl e \<Rightarrow> JNull | Inr v \<Rightarrow> v)"
    by (simp add: shape)
  have c1: "\<exists>v. fst res = Inr v" by (simp add: value_of)
  have c2: "requests (snd res) = requests w @ [rq]" by (simp add: shape rqs)
  have c3: "\<forall>r v. h = Reply r \<and> 200 \<le> status_code r \<and> status_code r \<le> 299
              \<and> json_result r = Inr v \<longrightarrow> fst res = Inr v"
    by (simp add: value_of read_response_def raise_for_status_def)
  have c4: "\<forall>r m. h = Reply r \<and> 200 \<le> status_code r \<and> status_code r \<le> 299
              \<and> json_result r = Inl m \<longrightarrow> fst res = Inr JNull"
    by (simp add: value_of read_response_def raise_for_status_def)
  have c5: "\<forall>r. h = Reply r \<and> \<not> (200 \<le> status_code r \<and> status_code r \<le> 299)
              \<longrightarrow> fst res = Inr JNull"
    by (auto simp add: value_of read_response_def raise_for_status_def)
  have c6: "\<forall>m. h = Fault m \<longrightarrow> fst res = Inr JNull"
    by (simp add: value_of read_response_def)
  from c1 c2 c3 c4 c5 c6 show ?thesis by blast
qed

text \<open>
  C7 on three calls: a GET answered 200 with a JSON body, a PATCH answered 200 with a
  body that is not JSON, and a PATCH that cannot connect.
\<close>

theorem make_roblox_request_never_raises_witness:
  "fst (make_roblox_request remote_done_third ''key'' ''GET''
          ''https://apis.roblox.com/cloud/v2/operations/123'' JNull True world0)
     = Inr (JObj [(''done'', JBool False)])
   \<and> fst (make_roblox_request remote_not_json ''key'' ''PATCH''
          (instance_url 1 2 ''inst'') (patch_body ''print(1)'') False world0)
     = Inr JNull
   \<and> fst (make_roblox_request remote_unreachable ''key'' ''PATCH''
          (instance_url 1 2 ''inst'') (patch_body ''print(1)'') False world0)
     = Inr JNull"
proof -
  let ?u = "''https://apis.roblox.com/cloud/v2/operations/123''"
  let ?r = "\<lparr>status_code = 200, body_text = ''(json)'',
             json_result = Inr (JObj [(''done'', JBool False)])\<rparr>"
  let ?n = "\<lparr>status_code = 200, body_text = ''OK'',
             json_result = Inl ''Expecting value'' :: string + json\<rparr>"
  have g: "upper ''GET'' = ''GET'' \<or> upper ''GET'' = ''PATCH''"
    and p: "upper ''PATCH'' = ''GET'' \<or> upper ''PATCH'' = ''PATCH''"
    by (simp_all add: upper_GET upper_PATCH)
  have "\<forall>r v. remote_done_third (length (requests world0))
                (if upper ''GET'' = ''GET'' then get_request (auth_headers ''key'') ?u
                 else patch_request (auth_headers ''key'') ?u JNull) = Reply r
              \<and> 200 \<le> status_code r \<and> status_code r \<le> 299 \<and> json_result r = Inr v
          \<longrightarrow> fst (make_roblox_request remote_done_third ''key'' ''GET'' ?u JNull True world0)
                = Inr v"
    using make_roblox_request_never_raises [OF g refl refl refl,
        where R = remote_done_third and api_key = "''key''" and u = ?u and data = JNull
          and w = world0 and is_polling = True]
    by blast
  from this [rule_format, of ?r "JObj [(''done'', JBool False)]"]
  have first: "fst (make_roblox_request remote_done_third ''key'' ''GET'' ?u JNull True world0)
     = Inr (JObj [(''done'', JBool False)])"
    by (simp add: remote_done_third_def ok_reply_def world0_simps)
  have "\<forall>r m. remote_not_json (length (requests world0))
                (if upper ''PATCH'' = ''GET''
                 then get_request (auth_headers ''key'') (instance_url 1 2 ''inst'')
                 else patch_request (auth_headers ''key'') (instance_url 1 2 ''inst'')
                        (patch_body ''print(1)'')) = Reply r
              \<and> 200 \<le> status_code r \<and> status_code r \<le> 299 \<and> json_result r = Inl m
          \<longrightarrow> fst (make_roblox_request remote_not_json ''key'' ''PATCH''
                     (instance_url 1 2 ''inst'') (patch_body ''print(1)'') False world0)
                = Inr JNull"
    using make_roblox_request_never_raises [OF p refl refl refl,
        where R = remote_not_json and api_key = "''key''" and u = "instance_url 1 2 ''inst''"
          and data = "patch_body ''print(1)''" and w = world0 and is_polling = False]
    by blast
  from this [rule_format, of ?n "''Expecting value''"]
  have second: "fst (make_roblox_request remote_not_json ''key'' ''PATCH''
          (instance_url 1 2 ''inst'') (patch_body ''print(1)'') False world0) = Inr JNull"
    by (simp add: remote_not_json_def)
  have "\<forall>m. remote_unreachable (length (requests world0))
                (if upper ''PATCH'' = ''GET''
                 then get_request (auth_headers ''key'') (instance_url 1 2 ''inst'')
                 else patch_request (auth_headers ''key'') (instance_url 1 2 ''inst'')
                        (patch_body ''print(1)'')) = Fault m
          \<longrightarrow> fst (make_roblox_request remote_unreachable ''key'' ''PATCH''
                     (instance_url 1 2 ''inst'') (patch_body ''print(1)'') False world0)
                = Inr JNull"
    using make_roblox_request_never_raises [OF p refl refl refl,
        where R = remote_unreachable and api_key = "''key''" and u = "instance_url 1 2 ''inst''"
          and data = "patch_body ''print(1)''" and w = world0 and is_polling = False]
    by blast
  from this [rule_format, of "''All connection attempts failed''"]
  have third: "fst (make_roblox_request remote_unreachable ''key'' ''PATCH''
          (instance_url 1 2 ''inst'') (patch_body ''print(1)'') False world0) = Inr JNull"
    by (simp add: remote_unreachable_def)
  from first second third show ?thesis by simp
qed

subsection \<open>C8\<close>

text \<open>
  C8: for every universe, place, instance and script, when the environment has no
  \<^verbatim>\<open>ROBLOX_API_KEY\<close>, \<^verbatim>\<open>update_script\<close> returns exactly
  "Error: Roblox Open Cloud API Key is required." and leaves the world as it was: no
  network call is made.
\<close>

theorem update_script_missing_key:
  "update_script R fmt None universe_id place_id instance_id script_content w
     = (Inr ''Error: Roblox Open Cloud API Key is required.'', w)
   \<and> requests (snd (update_script R fmt None universe_id place_id instance_id script_content w))
     = requests w"
  by (simp add: update_script_def)

subsection \<open>C9\<close>

text \<open>
  C9: whatever the remote side does, a value other than \<^verbatim>\<open>None\<close> returned by
  \<^verbatim>\<open>poll_for_results\<close> is a dict with a "done" field that is truthy.
\<close>

theorem poll_for_results_postcondition:
  "poll_for_results R fmt api_key operation_path retries delay w = (Inr v, w') \<Longrightarrow>
   v \<noteq> JNull \<Longrightarrow>
   \<exists>kvs d. v = JObj kvs \<and> map_of kvs ''done'' = Some d \<and> truthy d"
proof -
  assume "poll_for_results R fmt api_key operation_path retries delay w = (Inr v, w')"
    and "v \<noteq> JNull"
  then have "completed v"
    unfolding poll_for_results_def Let_def by (rule poll_loop_returns_completed)
  then show ?thesis
    by (cases v) (auto simp: completed_def split: option.splits)
qed

text \<open>
  C9 on a run that returns the envelope of its third attempt.
\<close>

theorem poll_for_results_postcondition_witness:
  "poll_for_results remote_done_third fmt_opaque ''key'' (JStr ''operations/9'') 10 5 world0
     = (Inr (JObj [(''done'', JBool True), (''response'', JObj [(''status'', JStr ''ok'')])]),
        snd (poll_for_results remote_done_third fmt_opaque ''key'' (JStr ''operations/9'') 10 5 world0))
   \<and> JObj [(''done'', JBool True), (''response'', JObj [(''status'', JStr ''ok'')])] \<noteq> JNull
   \<and> (\<exists>kvs d. JObj [(''done'', JBool True), (''response'', JObj [(''status'', JStr ''ok'')])] = JObj kvs
        \<and> map_of kvs ''done'' = Some d \<and> truthy d)"
proof -
  let ?p = "JStr ''operations/9''"
  let ?v = "JObj [(''done'', JBool True), (''response'', JObj [(''status'', JStr ''ok'')])]"
  have a: "(2::nat) < nat 10" by simp
  have b: "\<forall>j<2. envelope_or_absent (poll_reply remote_done_third fmt_opaque ''key'' ?p world0 j)
        \<and> \<not> completed (poll_reply remote_done_third fmt_opaque ''key'' ?p world0 j)"
    by (auto dest!: less_2_cases simp: done_third_replies envelope_or_absent_def completed_def)
  have c: "completed (poll_reply remote_done_third fmt_opaque ''key'' ?p world0 2)"
    by (simp add: done_third_replies completed_def)
  have "fst (poll_for_results remote_done_third fmt_opaque ''key'' ?p 10 5 world0)
      = Inr (poll_reply remote_done_third fmt_opaque ''key'' ?p world0 2)"
    using poll_loop_short_circuit [of 2 "nat 10" remote_done_third world0 "''key''"
        "poll_url fmt_opaque ?p" 5] a b c
    unfolding poll_for_results_def poll_reply_def Let_def by blast
  then have "fst (poll_for_results remote_done_third fmt_opaque ''key'' ?p 10 5 world0) = Inr ?v"
    by (simp add: done_third_replies)
  then have run: "poll_for_results remote_done_third fmt_opaque ''key'' ?p 10 5 world0
     = (Inr ?v, snd (poll_for_results remote_done_third fmt_opaque ''key'' ?p 10 5 world0))"
    by (simp add: prod_eq_iff)
  have ne: "?v \<noteq> JNull" by simp
  from poll_for_results_postcondition [OF run ne] run ne
  show ?thesis by blast
qed

subsection \<open>C10\<close>

text \<open>
  C10: a method that is "get" with each letter in either case behaves as "GET", and one
  that is "patch" with each letter in either case behaves as "PATCH": the same result
  and the same effects, for every credential, URL, body and remote side.
\<close>

theorem method_matching_ignores_case:
  "(is_casing method ''get'' \<longrightarrow>
      make_roblox_request R api_key method u data is_polling w
        = make_roblox_request R api_key ''GET'' u data is_polling w)
   \<and> (is_casing method ''patch'' \<longrightarrow>
      make_roblox_request R api_key method u data is_polling w
        = make_roblox_request R api_key ''PATCH'' u data is_polling w)"
proof (intro conjI impI)
  assume "is_casing method ''get''"
  then have "upper method = ''GET''"
    by (simp add: is_casing_upper [of "method" "''get''"] upper_get)
  then show "make_roblox_request R api_key method u data is_polling w
        = make_roblox_request R api_key ''GET'' u data is_polling w"
    by (simp add: make_roblox_request_GET upper_GET)
next
  assume "is_casing method ''patch''"
  then have "upper method = ''PATCH''"
    by (simp add: is_casing_upper [of "method" "''patch''"] upper_patch)
  then show "make_roblox_request R api_key method u data is_polling w
        = make_roblox_request R api_key ''PATCH'' u data is_polling w"
    by (simp add: make_roblox_request_PATCH upper_PATCH)
qed

text \<open>
  C10 at the methods "gEt" and "Patch".
\<close>

theorem method_matching_ignores_case_witness:
  "is_casing ''gEt'' ''get'' \<and> is_casing ''Patch'' ''patch''
   \<and> make_roblox_request remote_done_bare ''key'' ''gEt'' ''https://apis.roblox.com/cloud/v2/operations/123''
        JNull True world0
     = make_roblox_request remote_done_bare ''key'' ''GET'' ''https://apis.roblox.com/cloud/v2/operations/123''
        JNull True world0
   \<and> make_roblox_request remote_done_bare ''key'' ''Patch'' ''https://apis.roblox.com/cloud/v2/universes/1''
        (patch_body ''print(1)'') False world0
     = make_roblox_request remote_done_bare ''key'' ''PATCH'' ''https://apis.roblox.com/cloud/v2/universes/1''
        (patch_body ''print(1)'') False world0"
proof -
  have a: "is_casing ''gEt'' ''get''" and b: "is_casing ''Patch'' ''patch''"
    by (simp_all add: upper_char_def)
  from method_matching_ignores_case [of "''gEt''" remote_done_bare "''key''"
      "''https://apis.roblox.com/cloud/v2/operations/123''" JNull True world0]
    method_matching_ignores_case [of "''Patch''" remote_done_bare "''key''"
      "''https://apis.roblox.com/cloud/v2/universes/1''" "patch_body ''print(1)''" False world0]
  show ?thesis using a b by simp
qed

end
